theory Spec2Isabelle
  imports
    Main
    "HOL-Library.Word"
    "HOL-Library.Sublist"
    "HOL-Library.Char_ord"
    "HOL-Library.List_Lexorder"
    "HOL-Library.Finite_Map"
begin

section \<open>C strings\<close>

text \<open>
  A \<^verbatim>\<open>const char *\<close> is modelled by the bytes of memory that start at the pointer.
  Whoever consumes it as a C string (\<^verbatim>\<open>%s\<close>, \<^verbatim>\<open>strdup\<close>, the native
  library) reads up to the first NUL byte, or to the end of the modelled region: that is
  \<open>cstr\<close>. A \<^verbatim>\<open>std::string\<close> is the list of its bytes, which may contain NUL;
  \<^verbatim>\<open>c_str()\<close> yields the bytes followed by the terminator.
\<close>

definition NUL :: char where
  "NUL = CHR 0x00"

definition cstr :: "string \<Rightarrow> string" where
  "cstr s = takeWhile (\<lambda>c. c \<noteq> NUL) s"

definition c_str :: "string \<Rightarrow> string" where
  "c_str s = s @ [NUL]"

definition null_terminated :: "string \<Rightarrow> bool" where
  "null_terminated buf = (NUL \<in> set buf)"

section \<open>Formatted output\<close>

text \<open>The conversion \<^verbatim>\<open>%d\<close> of \<^verbatim>\<open>printf\<close>: a signed decimal numeral.\<close>

definition digit :: "nat \<Rightarrow> char" where
  "digit d = ''0123456789'' ! d"

fun show_nat :: "nat \<Rightarrow> string" where
  "show_nat n = (if n < 10 then [digit n] else show_nat (n div 10) @ [digit (n mod 10)])"

declare show_nat.simps [simp del]

definition show_int :: "int \<Rightarrow> string" where
  "show_int i = (if i < 0 then CHR ''-'' # show_nat (nat (- i)) else show_nat (nat i))"

text \<open>
  \<^verbatim>\<open>snprintf(buf, size, fmt, ...)\<close>, given the fully formatted text: it returns the
  length of that text, and writes at most \<open>size\<close> bytes, the terminator included. With
  \<open>size = 0\<close> nothing is written (the source passes \<^verbatim>\<open>nullptr\<close> there).
\<close>

definition snprintf_ret :: "string \<Rightarrow> int" where
  "snprintf_ret text = int (length text)"

definition snprintf_buf :: "int \<Rightarrow> string \<Rightarrow> string" where
  "snprintf_buf sz text = (if sz \<le> 0 then [] else take (nat sz - 1) text @ [NUL])"

definition strdup :: "string \<Rightarrow> string" where
  "strdup s = cstr s @ [NUL]"

section \<open>The exception class \<^verbatim>\<open>error\<close>\<close>

text \<open>
  The member \<^verbatim>\<open>buf_\<close> is the field \<open>buf\<close>: the bytes the constructor wrote into
  the allocated buffer. Running out of memory in \<^verbatim>\<open>strdup\<close> or
  \<^verbatim>\<open>malloc\<close> is not modelled.
\<close>

record error =
  buf :: string

type_synonym CURLcode = nat

definition CURLE_OK :: CURLcode where
  "CURLE_OK = 0"

definition CURLE_WRITE_ERROR :: CURLcode where
  "CURLE_WRITE_ERROR = 23"

text \<open>The two format strings of the constructors, with their arguments filled in.\<close>

definition fmt_location :: "string \<Rightarrow> int \<Rightarrow> string \<Rightarrow> string" where
  "fmt_location file line msg =
     ''File: '' @ cstr file @ '' - Line: '' @ show_int line @ ''\<newline>'' @ cstr msg @ ''\<newline>''"

definition fmt_code :: "string \<Rightarrow> int \<Rightarrow> string \<Rightarrow> string \<Rightarrow> string" where
  "fmt_code file line msg errstr =
     ''File: '' @ cstr file @ '' - Line: '' @ show_int line @ ''\<newline>'' @ cstr msg
       @ ''\<newline>----------\<newline>'' @ cstr errstr @ ''\<newline>''"

text \<open>\<^verbatim>\<open>error::error(const char * msg)\<close>\<close>

definition error_msg :: "string \<Rightarrow> error" where
  "error_msg msg = \<lparr>buf = strdup msg\<rparr>"

text \<open>\<^verbatim>\<open>error::error(const char * msg, const char * file, int line)\<close>\<close>

definition error_location :: "string \<Rightarrow> string \<Rightarrow> int \<Rightarrow> error" where
  "error_location msg file line =
     (let sz = snprintf_ret (fmt_location file line msg)
      in \<lparr>buf = snprintf_buf sz (fmt_location file line msg)\<rparr>)"

text \<open>
  \<^verbatim>\<open>error::error(const char * msg, CURLcode code, const char * file, int line)\<close>;
  \<open>strerror\<close> is the native \<^verbatim>\<open>curl_easy_strerror\<close>.
\<close>

definition error_code :: "(CURLcode \<Rightarrow> string) \<Rightarrow> string \<Rightarrow> CURLcode \<Rightarrow> string \<Rightarrow> int \<Rightarrow> error" where
  "error_code strerror msg code file line =
     (let errstr = strerror code;
          sz = snprintf_ret (fmt_code file line msg errstr)
      in \<lparr>buf = snprintf_buf sz (fmt_code file line msg errstr)\<rparr>)"

text \<open>\<^verbatim>\<open>error::what()\<close> returns the buffer; its reader sees the C string in it.\<close>

definition what :: "error \<Rightarrow> string" where
  "what e = buf e"

section \<open>The native library\<close>

text \<open>
  The wrapper's only collaborator is the native transfer library. Its calls are recorded,
  in order, in a trace; what a call returns is given by the environment as a function of
  the calls made before it and of its arguments, so that every deterministic behaviour of
  the library is an environment. A \<^verbatim>\<open>CURL *\<close> is an address, \<open>nullptr\<close> the
  null pointer.
\<close>

type_synonym CURL = nat

definition nullptr :: nat where
  "nullptr = 0"

datatype CURLoption =
    CURLOPT_COOKIELIST
  | CURLOPT_WRITEDATA
  | CURLOPT_WRITEFUNCTION
  | CURLOPT_other nat

text \<open>Function pointers: the three static write callbacks of the class, or any other.\<close>

datatype funptr =
    Recv_into_writefunc_string
  | Recv_into_writefunc_stream
  | Recv_into_writefunc_file
  | Funptr_other nat

text \<open>
  The third argument of \<^verbatim>\<open>curl_easy_setopt\<close>: a \<^verbatim>\<open>long\<close>, a C string (the
  characters the library reads at the pointer), an object pointer or a function pointer.
\<close>

datatype optval =
    Long int
  | String string
  | Pointer nat
  | Function funptr

text \<open>
  A \<^verbatim>\<open>curl_slist *\<close> is modelled by the chain of strings it points to; the null
  pointer is the empty chain.
\<close>

type_synonym curl_slist = "string list"

datatype call =
    Curl_easy_init
  | Curl_easy_cleanup CURL
  | Curl_easy_setopt CURL CURLoption optval
  | Curl_easy_duphandle CURL
  | Curl_easy_perform CURL
  | Curl_slist_append curl_slist string
  | Curl_slist_free_all curl_slist

type_synonym size_t = "64 word"

text \<open>
  One invocation of the write callback by the library: the memory at \<^verbatim>\<open>ptr\<close> and
  the arguments \<^verbatim>\<open>size\<close> and \<^verbatim>\<open>nmemb\<close>.
\<close>

record chunk =
  ptr :: "nat \<Rightarrow> char"
  size_c :: size_t
  nmemb :: size_t

text \<open>
  \<open>FILE_cpp\<close> and \<open>FILE_h\<close> are what \<^verbatim>\<open>__FILE__\<close> expands to inside
  \<^verbatim>\<open>curl++.cpp\<close> and \<^verbatim>\<open>curl++.h\<close>; they depend on how the compiler is called.
  \<open>data_easy_perform\<close> is the sequence of chunks the library has for the write callback
  during one \<^verbatim>\<open>curl_easy_perform\<close>, \<open>ret_easy_perform\<close> the code it returns when
  the callback accepted them all. \<open>ok_slist_append\<close> tells whether
  \<^verbatim>\<open>curl_slist_append\<close> succeeds.
\<close>

record env =
  FILE_cpp :: string
  FILE_h :: string
  ret_easy_init :: "call list \<Rightarrow> CURL"
  ret_easy_setopt :: "call list \<Rightarrow> CURL \<Rightarrow> CURLoption \<Rightarrow> optval \<Rightarrow> CURLcode"
  ret_easy_duphandle :: "call list \<Rightarrow> CURL \<Rightarrow> CURL"
  ret_easy_perform :: "call list \<Rightarrow> CURL \<Rightarrow> CURLcode"
  data_easy_perform :: "call list \<Rightarrow> CURL \<Rightarrow> chunk list"
  ret_easy_strerror :: "CURLcode \<Rightarrow> string"
  ok_slist_append :: "call list \<Rightarrow> bool"

definition curl_easy_init :: "env \<Rightarrow> call list \<Rightarrow> CURL \<times> call list" where
  "curl_easy_init env tr = (ret_easy_init env tr, tr @ [Curl_easy_init])"

definition curl_easy_cleanup :: "CURL \<Rightarrow> call list \<Rightarrow> call list" where
  "curl_easy_cleanup h tr = tr @ [Curl_easy_cleanup h]"

definition curl_easy_setopt ::
  "env \<Rightarrow> CURL \<Rightarrow> CURLoption \<Rightarrow> optval \<Rightarrow> call list \<Rightarrow> CURLcode \<times> call list" where
  "curl_easy_setopt env h opt v tr = (ret_easy_setopt env tr h opt v, tr @ [Curl_easy_setopt h opt v])"

definition curl_easy_duphandle :: "env \<Rightarrow> CURL \<Rightarrow> call list \<Rightarrow> CURL \<times> call list" where
  "curl_easy_duphandle env h tr = (ret_easy_duphandle env tr h, tr @ [Curl_easy_duphandle h])"

text \<open>
  During \<^verbatim>\<open>curl_easy_perform\<close> the library offers its chunks, one after the other, to
  the write callback installed on the handle, with the installed user data. A callback
  that returns anything but \<^verbatim>\<open>size * nmemb\<close> makes the library stop and return
  \<^verbatim>\<open>CURLE_WRITE_ERROR\<close>. The callback \<open>cb\<close> and its data \<open>s\<close> stand for the
  values of \<^verbatim>\<open>CURLOPT_WRITEFUNCTION\<close> and \<^verbatim>\<open>CURLOPT_WRITEDATA\<close> of the handle.
  \<open>deliver\<close> returns whether every chunk was accepted, and the data afterwards.
\<close>

fun deliver :: "(chunk \<Rightarrow> 's \<Rightarrow> size_t \<times> 's) \<Rightarrow> chunk list \<Rightarrow> 's \<Rightarrow> bool \<times> 's" where
  "deliver cb [] s = (True, s)"
| "deliver cb (c # cs) s =
     (case cb c s of (r, s') \<Rightarrow>
        if r = size_c c * nmemb c then deliver cb cs s' else (False, s'))"

definition curl_easy_perform ::
  "env \<Rightarrow> CURL \<Rightarrow> (chunk \<Rightarrow> 's \<Rightarrow> size_t \<times> 's) \<Rightarrow> 's \<Rightarrow> call list \<Rightarrow> CURLcode \<times> 's \<times> call list" where
  "curl_easy_perform env h cb s tr =
     (case deliver cb (data_easy_perform env tr h) s of (accepted, s') \<Rightarrow>
        (if accepted then ret_easy_perform env tr h else CURLE_WRITE_ERROR,
         s', tr @ [Curl_easy_perform h]))"

text \<open>
  \<^verbatim>\<open>curl_slist_append\<close> adds a copy of the string at the end of the chain and returns
  the new chain, or returns the null pointer when it fails.
\<close>

definition curl_slist_append :: "env \<Rightarrow> curl_slist \<Rightarrow> string \<Rightarrow> call list \<Rightarrow> curl_slist \<times> call list" where
  "curl_slist_append env l v tr =
     (if ok_slist_append env tr then l @ [cstr v] else [], tr @ [Curl_slist_append l (cstr v)])"

definition curl_slist_free_all :: "curl_slist \<Rightarrow> call list \<Rightarrow> call list" where
  "curl_slist_free_all l tr = tr @ [Curl_slist_free_all l]"

section \<open>The macros \<^verbatim>\<open>CHECK\<close> and \<^verbatim>\<open>ERROR\<close>\<close>

text \<open>
  \<^verbatim>\<open>CHECK(x)\<close> throws \<^verbatim>\<open>error(#x, code, __FILE__, __LINE__)\<close> when the code is not
  \<^verbatim>\<open>CURLE_OK\<close>; the text of \<open>x\<close>, the file and the line are those of the place of
  use. \<^verbatim>\<open>ERROR(x)\<close> is \<^verbatim>\<open>error(x, __FILE__, __LINE__)\<close>, used in
  \<^verbatim>\<open>curl++.cpp\<close> only.
\<close>

definition CHECK :: "env \<Rightarrow> string \<Rightarrow> string \<Rightarrow> int \<Rightarrow> CURLcode \<Rightarrow> error + unit" where
  "CHECK env x file line code =
     (if code \<noteq> CURLE_OK then Inl (error_code (ret_easy_strerror env) x code file line)
      else Inr ())"

definition ERROR :: "env \<Rightarrow> string \<Rightarrow> int \<Rightarrow> error" where
  "ERROR env x line = error_location x (FILE_cpp env) line"

section \<open>The class \<^verbatim>\<open>easy\<close>\<close>

text \<open>
  The member \<^verbatim>\<open>handle_\<close> is the field \<open>handle\<close>. A member function returns
  \<open>Inl\<close> of the \<^verbatim>\<open>error\<close> it throws or \<open>Inr\<close> of its result, together with the
  trace of native calls after it. The exceptions of the standard library on exhausted
  memory are not modelled.
\<close>

record easy =
  handle :: CURL

text \<open>\<^verbatim>\<open>easy::easy()\<close>\<close>

definition easy_init :: "env \<Rightarrow> call list \<Rightarrow> (error + easy) \<times> call list" where
  "easy_init env tr =
     (case curl_easy_init env tr of (h, tr') \<Rightarrow>
        if h = nullptr then (Inl (ERROR env ''Failed to aquire CURL easy handle'' 54), tr')
        else (Inr \<lparr>handle = h\<rparr>, tr'))"

text \<open>\<^verbatim>\<open>easy::easy(CURL * handle)\<close>\<close>

definition easy_from :: "env \<Rightarrow> CURL \<Rightarrow> error + easy" where
  "easy_from env h =
     (if h = nullptr then Inl (ERROR env ''Failed to aquire CURL easy handle'' 61)
      else Inr \<lparr>handle = h\<rparr>)"

text \<open>\<^verbatim>\<open>easy::~easy()\<close>\<close>

definition easy_dtor :: "easy \<Rightarrow> call list \<Rightarrow> call list" where
  "easy_dtor e tr = curl_easy_cleanup (handle e) tr"

text \<open>
  \<^verbatim>\<open>easy(easy&& other) = default\<close> and \<^verbatim>\<open>operator = (easy&& other) = default\<close>
  move member by member, and moving a pointer copies it. Both return the target and the
  source after the move.
\<close>

definition easy_move :: "easy \<Rightarrow> easy \<times> easy" where
  "easy_move other = (\<lparr>handle = handle other\<rparr>, other)"

definition easy_move_assign :: "easy \<Rightarrow> easy \<Rightarrow> easy \<times> easy" where
  "easy_move_assign this other = (this\<lparr>handle := handle other\<rparr>, other)"

text \<open>The four overloads of \<^verbatim>\<open>easy::set\<close>: lines 71 and 76 of the source file, 198 and 203 of the header.\<close>

definition set_long :: "env \<Rightarrow> easy \<Rightarrow> CURLoption \<Rightarrow> int \<Rightarrow> call list \<Rightarrow> (error + unit) \<times> call list" where
  "set_long env e option v tr =
     (case curl_easy_setopt env (handle e) option (Long v) tr of (code, tr') \<Rightarrow>
        (CHECK env ''curl_easy_setopt(handle_, option, value)'' (FILE_cpp env) 71 code, tr'))"

definition set_string :: "env \<Rightarrow> easy \<Rightarrow> CURLoption \<Rightarrow> string \<Rightarrow> call list \<Rightarrow> (error + unit) \<times> call list" where
  "set_string env e option v tr =
     (case curl_easy_setopt env (handle e) option (String (cstr (c_str v))) tr of (code, tr') \<Rightarrow>
        (CHECK env ''curl_easy_setopt(handle_, option, value.c_str())'' (FILE_cpp env) 76 code, tr'))"

definition set_pointer :: "env \<Rightarrow> easy \<Rightarrow> CURLoption \<Rightarrow> nat \<Rightarrow> call list \<Rightarrow> (error + unit) \<times> call list" where
  "set_pointer env e option v tr =
     (case curl_easy_setopt env (handle e) option (Pointer v) tr of (code, tr') \<Rightarrow>
        (CHECK env ''curl_easy_setopt(handle_, option, value)'' (FILE_h env) 198 code, tr'))"

definition set_function :: "env \<Rightarrow> easy \<Rightarrow> CURLoption \<Rightarrow> funptr \<Rightarrow> call list \<Rightarrow> (error + unit) \<times> call list" where
  "set_function env e option v tr =
     (case curl_easy_setopt env (handle e) option (Function v) tr of (code, tr') \<Rightarrow>
        (CHECK env ''curl_easy_setopt(handle_, option, value)'' (FILE_h env) 203 code, tr'))"

text \<open>\<^verbatim>\<open>easy::add_cookie(const char *)\<close> and \<^verbatim>\<open>easy::add_cookie(const std::string&)\<close>\<close>

definition add_cookie :: "env \<Rightarrow> easy \<Rightarrow> string \<Rightarrow> call list \<Rightarrow> (error + unit) \<times> call list" where
  "add_cookie env e cookie tr =
     (case curl_easy_setopt env (handle e) CURLOPT_COOKIELIST (String (cstr cookie)) tr of (code, tr') \<Rightarrow>
        (CHECK env ''curl_easy_setopt(handle_, CURLOPT_COOKIELIST, cookie)'' (FILE_cpp env) 81 code, tr'))"

definition add_cookie_string :: "env \<Rightarrow> easy \<Rightarrow> string \<Rightarrow> call list \<Rightarrow> (error + unit) \<times> call list" where
  "add_cookie_string env e cookie tr =
     (case curl_easy_setopt env (handle e) CURLOPT_COOKIELIST (String (cstr (c_str cookie))) tr of (code, tr') \<Rightarrow>
        (CHECK env ''curl_easy_setopt(handle_, CURLOPT_COOKIELIST, cookie.c_str())'' (FILE_cpp env) 86 code, tr'))"

text \<open>
  \<^verbatim>\<open>easy::add_cookie(const std::map<std::string, std::string>&)\<close>. A
  \<^verbatim>\<open>std::map\<close> is a finite map, visited in the order of its keys. The first loop finds
  the size to reserve: the longest name plus value plus
  \<^verbatim>\<open>sizeof("Set-Cookie: =;\n")\<close>, which is 16. \<^verbatim>\<open>reserve\<close> changes the
  capacity of the string and not its content.
\<close>

type_synonym cookiemap = "(string, string) fmap"

definition cookie_size :: "cookiemap \<Rightarrow> nat" where
  "cookie_size cookiemap =
     foldl (\<lambda>sz c. max sz (length (fst c) + length (snd c) + 16)) 0 (sorted_list_of_fmap cookiemap)"

definition reserve :: "nat \<Rightarrow> string \<Rightarrow> string" where
  "reserve n s = s"

text \<open>The body of the second loop builds the string \<open>cookie\<close> anew for each pair.\<close>

definition cookie_line :: "string \<Rightarrow> string \<Rightarrow> string" where
  "cookie_line name val = (((([] @ ''Set-Cookie: '') @ name) @ [CHR ''='']) @ val) @ [CHR '';'']"

definition add_cookie_step :: "env \<Rightarrow> easy \<Rightarrow> call list \<Rightarrow> string \<times> string \<Rightarrow> call list" where
  "add_cookie_step env e tr c =
     snd (curl_easy_setopt env (handle e) CURLOPT_COOKIELIST
            (String (cstr (c_str (cookie_line (fst c) (snd c))))) tr)"

definition add_cookie_map :: "env \<Rightarrow> easy \<Rightarrow> cookiemap \<Rightarrow> call list \<Rightarrow> (error + unit) \<times> call list" where
  "add_cookie_map env e cookiemap tr =
     (let cookie = reserve (cookie_size cookiemap + 1) []
      in (Inr (), foldl (add_cookie_step env e) tr (sorted_list_of_fmap cookiemap)))"

text \<open>
  \<^verbatim>\<open>easy::duplicate()\<close>. The object it returns is the one the constructor built: the
  temporary of the \<^verbatim>\<open>return\<close> statement is constructed in place.
\<close>

definition duplicate :: "env \<Rightarrow> easy \<Rightarrow> call list \<Rightarrow> (error + easy) \<times> call list" where
  "duplicate env e tr =
     (case curl_easy_duphandle env (handle e) tr of (h, tr') \<Rightarrow> (easy_from env h, tr'))"

text \<open>
  \<^verbatim>\<open>easy::perform()\<close>. The callback and its data are those installed on the native
  handle; the data after the transfer is returned with the result.
\<close>

definition perform ::
  "env \<Rightarrow> easy \<Rightarrow> (chunk \<Rightarrow> 's \<Rightarrow> size_t \<times> 's) \<Rightarrow> 's \<Rightarrow> call list \<Rightarrow> (error + unit) \<times> 's \<times> call list" where
  "perform env e cb s tr =
     (case curl_easy_perform env (handle e) cb s tr of (code, s', tr') \<Rightarrow>
        (CHECK env ''curl_easy_perform(handle_)'' (FILE_cpp env) 129 code, s', tr'))"

text \<open>
  \<^verbatim>\<open>easy::recv_into_writefunc_string_\<close>: \<^verbatim>\<open>buffer->append(ptr, size*nmemb)\<close> copies
  that many bytes from \<^verbatim>\<open>ptr\<close>; the product is taken in \<^verbatim>\<open>size_t\<close>.
\<close>

definition bytes_at :: "(nat \<Rightarrow> char) \<Rightarrow> nat \<Rightarrow> string" where
  "bytes_at p n = map p [0..<n]"

definition recv_into_writefunc_string :: "chunk \<Rightarrow> string \<Rightarrow> size_t \<times> string" where
  "recv_into_writefunc_string c buffer =
     (size_c c * nmemb c, buffer @ bytes_at (ptr c) (unat (size_c c * nmemb c)))"

text \<open>
  \<^verbatim>\<open>easy::recv_into(std::string& buffer)\<close>; \<open>addr\<close> is the address of the buffer. An
  exception leaves the buffer as it is at that moment.
\<close>

definition recv_into_string ::
  "env \<Rightarrow> easy \<Rightarrow> nat \<Rightarrow> string \<Rightarrow> call list \<Rightarrow> (error + unit) \<times> string \<times> call list" where
  "recv_into_string env e addr buffer tr =
     (case set_pointer env e CURLOPT_WRITEDATA addr tr of
        (Inl err, tr1) \<Rightarrow> (Inl err, buffer, tr1)
      | (Inr u, tr1) \<Rightarrow>
          (case set_function env e CURLOPT_WRITEFUNCTION Recv_into_writefunc_string tr1 of
             (Inl err, tr2) \<Rightarrow> (Inl err, buffer, tr2)
           | (Inr u, tr2) \<Rightarrow> perform env e recv_into_writefunc_string buffer tr2))"

text \<open>\<^verbatim>\<open>easy::get()\<close>; \<open>addr\<close> is the address of its local buffer.\<close>

definition get :: "env \<Rightarrow> easy \<Rightarrow> nat \<Rightarrow> call list \<Rightarrow> (error + string) \<times> call list" where
  "get env e addr tr =
     (case recv_into_string env e addr [] tr of
        (Inl err, buffer, tr') \<Rightarrow> (Inl err, tr')
      | (Inr u, buffer, tr') \<Rightarrow> (Inr buffer, tr'))"

text \<open>The comparison operators.\<close>

definition op_eq :: "easy \<Rightarrow> easy \<Rightarrow> bool" where
  "op_eq this other = (handle this = handle other)"

definition op_ne :: "easy \<Rightarrow> easy \<Rightarrow> bool" where
  "op_ne this other = (handle this \<noteq> handle other)"

definition op_lt :: "easy \<Rightarrow> easy \<Rightarrow> bool" where
  "op_lt this other = (handle this < handle other)"

definition op_gt :: "easy \<Rightarrow> easy \<Rightarrow> bool" where
  "op_gt this other = (handle this > handle other)"

definition op_le :: "easy \<Rightarrow> easy \<Rightarrow> bool" where
  "op_le this other = (handle this \<le> handle other)"

definition op_ge :: "easy \<Rightarrow> easy \<Rightarrow> bool" where
  "op_ge this other = (handle this \<ge> handle other)"

section \<open>The class \<^verbatim>\<open>list\<close>\<close>

text \<open>The class is the record \<open>slist\<close>, its member \<^verbatim>\<open>list_\<close> the field \<open>list_p\<close>.\<close>

record slist =
  list_p :: curl_slist

definition list_init :: slist where
  "list_init = \<lparr>list_p = []\<rparr>"

definition list_from :: "curl_slist \<Rightarrow> slist" where
  "list_from sl = \<lparr>list_p = sl\<rparr>"

definition list_dtor :: "slist \<Rightarrow> call list \<Rightarrow> call list" where
  "list_dtor l tr = curl_slist_free_all (list_p l) tr"

text \<open>\<^verbatim>\<open>list::append(const char *)\<close> and \<^verbatim>\<open>list::append(std::string&)\<close>\<close>

definition list_append :: "env \<Rightarrow> string \<Rightarrow> slist \<Rightarrow> call list \<Rightarrow> slist \<times> call list" where
  "list_append env v l tr =
     (case curl_slist_append env (list_p l) v tr of (r, tr') \<Rightarrow> (l\<lparr>list_p := r\<rparr>, tr'))"

definition list_append_string :: "env \<Rightarrow> string \<Rightarrow> slist \<Rightarrow> call list \<Rightarrow> slist \<times> call list" where
  "list_append_string env v l tr = list_append env (c_str v) l tr"

text \<open>\<^verbatim>\<open>list::operator * ()\<close>\<close>

definition deref :: "slist \<Rightarrow> curl_slist" where
  "deref l = list_p l"

text \<open>
  One call of \<^verbatim>\<open>append\<close>, through either overload, with its argument; and the entry
  such a call adds when the native call succeeds: the characters of the argument up to its
  first NUL byte.
\<close>

datatype append_arg =
    Append_cstr string
  | Append_string string

fun append_call :: "env \<Rightarrow> append_arg \<Rightarrow> slist \<Rightarrow> call list \<Rightarrow> slist \<times> call list" where
  "append_call env (Append_cstr v) l tr = list_append env v l tr"
| "append_call env (Append_string v) l tr = list_append_string env v l tr"

fun entry :: "append_arg \<Rightarrow> string" where
  "entry (Append_cstr v) = cstr v"
| "entry (Append_string v) = cstr v"

text \<open>A sequence of calls of \<^verbatim>\<open>append\<close> on one list.\<close>

fun appends :: "env \<Rightarrow> append_arg list \<Rightarrow> slist \<Rightarrow> call list \<Rightarrow> slist \<times> call list" where
  "appends env [] l tr = (l, tr)"
| "appends env (a # args) l tr = (case append_call env a l tr of (l', tr') \<Rightarrow> appends env args l' tr')"

text \<open>Whether every native call made by that sequence succeeds.\<close>

fun appends_succeed :: "env \<Rightarrow> append_arg list \<Rightarrow> slist \<Rightarrow> call list \<Rightarrow> bool" where
  "appends_succeed env [] l tr = True"
| "appends_succeed env (a # args) l tr =
     (ok_slist_append env tr \<and>
      (case append_call env a l tr of (l', tr') \<Rightarrow> appends_succeed env args l' tr'))"

section \<open>Observations on results\<close>

text \<open>
  An error mentions a place when the C string of \<^verbatim>\<open>what()\<close> starts with the file
  and the line, in the layout of the format strings.
\<close>

definition mentions :: "error \<Rightarrow> string \<Rightarrow> int \<Rightarrow> bool" where
  "mentions err file line =
     prefix (''File: '' @ cstr file @ '' - Line: '' @ show_int line @ ''\<newline>'') (cstr (what err))"

text \<open>
  What a checked call may do, given the code the native call returned: return normally
  when the code is \<^verbatim>\<open>CURLE_OK\<close>, and otherwise throw an error that mentions the place
  of the call.
\<close>

definition silent_or_raises :: "CURLcode \<Rightarrow> error + unit \<Rightarrow> string \<Rightarrow> int \<Rightarrow> bool" where
  "silent_or_raises code r file line =
     (if code = CURLE_OK then r = Inr ()
      else (case r of Inl err \<Rightarrow> mentions err file line | Inr u \<Rightarrow> False))"

text \<open>The bytes one invocation of the write callback offers.\<close>

definition delivered :: "chunk \<Rightarrow> string" where
  "delivered c = bytes_at (ptr c) (unat (size_c c * nmemb c))"

text \<open>
  The chunks the library has for the write callback when
  \<^verbatim>\<open>recv_into(std::string&)\<close> reaches \<^verbatim>\<open>perform()\<close>, after its two calls of
  \<^verbatim>\<open>set\<close>.
\<close>

definition offered :: "env \<Rightarrow> easy \<Rightarrow> nat \<Rightarrow> call list \<Rightarrow> chunk list" where
  "offered env e addr tr =
     data_easy_perform env
       (tr @ [Curl_easy_setopt (handle e) CURLOPT_WRITEDATA (Pointer addr),
              Curl_easy_setopt (handle e) CURLOPT_WRITEFUNCTION (Function Recv_into_writefunc_string)])
       (handle e)"

section \<open>Native handles in use\<close>

text \<open>
  The handles the library has handed out and not yet got back, read off a trace: a handle
  is in use from the call of \<^verbatim>\<open>curl_easy_init\<close> or \<^verbatim>\<open>curl_easy_duphandle\<close>
  that returned it to the call of \<^verbatim>\<open>curl_easy_cleanup\<close> on it.
\<close>

definition acquired :: "CURL \<Rightarrow> CURL list \<Rightarrow> CURL list" where
  "acquired h hs = (if h = nullptr then hs else h # hs)"

fun live_from :: "env \<Rightarrow> call list \<Rightarrow> call list \<Rightarrow> CURL list \<Rightarrow> CURL list" where
  "live_from env past [] hs = hs"
| "live_from env past (c # cs) hs =
     live_from env (past @ [c]) cs
       (case c of
          Curl_easy_init \<Rightarrow> acquired (ret_easy_init env past) hs
        | Curl_easy_duphandle h \<Rightarrow> acquired (ret_easy_duphandle env past h) hs
        | Curl_easy_cleanup h \<Rightarrow> removeAll h hs
        | _ \<Rightarrow> hs)"

definition live :: "env \<Rightarrow> call list \<Rightarrow> CURL list" where
  "live env tr = live_from env [] tr []"

section \<open>An environment to run the model in\<close>

text \<open>
  A library whose \<^verbatim>\<open>curl_easy_setopt\<close> and \<^verbatim>\<open>curl_easy_perform\<close> always return
  the given code, whose handles are numbered by the length of the trace, which has the two
  chunks \<^verbatim>\<open>"ab"\<close> and \<^verbatim>\<open>"c"\<close> for the write callback, and whose
  \<^verbatim>\<open>curl_slist_append\<close> fails from the second call on.
\<close>

definition chunk_of :: "string \<Rightarrow> chunk" where
  "chunk_of s = \<lparr>ptr = (\<lambda>i. s ! i), size_c = 1, nmemb = of_nat (length s)\<rparr>"

definition env_example :: "CURLcode \<Rightarrow> env" where
  "env_example code =
     \<lparr>FILE_cpp = ''src/curl++.cpp'',
      FILE_h = ''src/curl++.h'',
      ret_easy_init = (\<lambda>tr. Suc (length tr)),
      ret_easy_setopt = (\<lambda>tr h opt v. code),
      ret_easy_duphandle = (\<lambda>tr h. if h = 1 then nullptr else Suc (length tr)),
      ret_easy_perform = (\<lambda>tr h. code),
      data_easy_perform = (\<lambda>tr h. [chunk_of ''ab'', chunk_of ''c'']),
      ret_easy_strerror = (\<lambda>c. if c = CURLE_OK then ''No error'' else ''Failed''),
      ok_slist_append = (\<lambda>tr. length tr < 1)\<rparr>"

text \<open>
  The same library, but with a \<^verbatim>\<open>curl_slist_append\<close> that succeeds as long as
  fewer than \<open>n\<close> native calls have been made.
\<close>

definition env_slist :: "nat \<Rightarrow> env" where
  "env_slist n = (env_example 0)\<lparr>ok_slist_append := (\<lambda>tr. length tr < n)\<rparr>"

section \<open>Facts about C strings and formatted messages\<close>

lemma cstr_no_NUL: "NUL \<notin> set (cstr s)"
  unfolding cstr_def by (induction s) auto

lemma cstr_id: "NUL \<notin> set s \<Longrightarrow> cstr s = s"
  unfolding cstr_def by (induction s) auto

lemma cstr_c_str: "cstr (c_str s) = cstr s"
  unfolding cstr_def c_str_def by (induction s) auto

lemma cstr_terminated: "NUL \<notin> set s \<Longrightarrow> cstr (s @ NUL # t) = s"
  unfolding cstr_def by (induction s) auto

lemma digit_no_NUL: "d < 10 \<Longrightarrow> digit d \<noteq> NUL"
proof -
  assume "d < 10"
  then have "d \<in> {0,1,2,3,4,5,6,7,8,9}" by auto
  then show ?thesis by (auto simp: digit_def NUL_def)
qed

lemma show_nat_no_NUL: "NUL \<notin> set (show_nat n)"
proof (induction n rule: show_nat.induct)
  case (1 n)
  show ?case
  proof (cases "n < 10")
    case True
    then show ?thesis using digit_no_NUL [of n] by (subst show_nat.simps) auto
  next
    case False
    have "n mod 10 < 10" by simp
    then have "digit (n mod 10) \<noteq> NUL" by (rule digit_no_NUL)
    with False 1 show ?thesis by (subst show_nat.simps) auto
  qed
qed

lemma show_int_no_NUL: "NUL \<notin> set (show_int i)"
  using show_nat_no_NUL by (simp add: show_int_def NUL_def)

lemma fmt_location_no_NUL: "NUL \<notin> set (fmt_location file line msg)"
  using cstr_no_NUL show_int_no_NUL by (simp add: fmt_location_def NUL_def)

lemma fmt_code_no_NUL: "NUL \<notin> set (fmt_code file line msg errstr)"
  using cstr_no_NUL show_int_no_NUL by (simp add: fmt_code_def NUL_def)

text \<open>
  The constructors ask \<^verbatim>\<open>snprintf\<close> for the length of the text and then give that
  length, not the length plus one, as the size of the buffer: the last character of the
  text does not fit.
\<close>

lemma snprintf_truncates:
  assumes "text \<noteq> []" and "NUL \<notin> set text"
  shows "cstr (snprintf_buf (snprintf_ret text) text) = butlast text"
proof -
  have "NUL \<notin> set (butlast text)" using assms(2) by (meson in_set_butlastD)
  then show ?thesis using assms(1)
    by (simp add: snprintf_buf_def snprintf_ret_def butlast_conv_take cstr_terminated)
qed

lemma what_error_location:
  "cstr (what (error_location msg file line)) = butlast (fmt_location file line msg)"
proof -
  have "fmt_location file line msg \<noteq> []" by (simp add: fmt_location_def)
  then show ?thesis
    by (simp add: what_def error_location_def Let_def snprintf_truncates fmt_location_no_NUL)
qed

lemma what_error_code:
  "cstr (what (error_code strerror msg code file line))
     = butlast (fmt_code file line msg (strerror code))"
proof -
  have "fmt_code file line msg (strerror code) \<noteq> []" by (simp add: fmt_code_def)
  then show ?thesis
    by (simp add: what_def error_code_def Let_def snprintf_truncates fmt_code_no_NUL)
qed

lemma what_error_msg: "cstr (what (error_msg msg)) = cstr msg"
  by (simp add: what_def error_msg_def strdup_def cstr_terminated cstr_no_NUL)

lemma butlast_fmt_location:
  "butlast (fmt_location file line msg)
     = ''File: '' @ cstr file @ '' - Line: '' @ show_int line @ ''\<newline>'' @ cstr msg"
  by (simp add: fmt_location_def butlast_append)

lemma butlast_fmt_code:
  "butlast (fmt_code file line msg errstr)
     = ''File: '' @ cstr file @ '' - Line: '' @ show_int line @ ''\<newline>'' @ cstr msg
         @ ''\<newline>----------\<newline>'' @ cstr errstr"
  by (simp add: fmt_code_def butlast_append)

lemma show_int_61: "show_int 61 = ''61''"
  by (simp add: show_int_def show_nat.simps digit_def)

lemma what_acquisition_error:
  "cstr (what (ERROR env ''Failed to aquire CURL easy handle'' 61))
     = ''File: '' @ cstr (FILE_cpp env) @ '' - Line: 61\<newline>Failed to aquire CURL easy handle''"
proof -
  have "cstr ''Failed to aquire CURL easy handle'' = ''Failed to aquire CURL easy handle''"
    by (simp add: cstr_def NUL_def)
  then show ?thesis
    by (simp add: ERROR_def what_error_location butlast_fmt_location show_int_61)
qed

section \<open>Construction from a native handle\<close>

text \<open>
  C4: constructing an \<^verbatim>\<open>easy\<close> from the null handle always throws the acquisition
  error, the \<^verbatim>\<open>error\<close> built by \<^verbatim>\<open>ERROR\<close> at line 61 with the message
  "Failed to aquire CURL easy handle". Constructing it from a handle that is not null never
  throws, and the object holds exactly that handle: it is the one its destructor gives to
  \<^verbatim>\<open>curl_easy_cleanup\<close>.
\<close>

theorem easy_from_null_or_owner:
  "easy_from env nullptr = Inl (ERROR env ''Failed to aquire CURL easy handle'' 61)
   \<and> cstr (what (ERROR env ''Failed to aquire CURL easy handle'' 61))
       = ''File: '' @ cstr (FILE_cpp env) @ '' - Line: 61\<newline>Failed to aquire CURL easy handle''
   \<and> (h \<noteq> nullptr \<longrightarrow>
        easy_from env h = Inr \<lparr>handle = h\<rparr>
        \<and> easy_dtor \<lparr>handle = h\<rparr> tr = tr @ [Curl_easy_cleanup h])"
  by (simp add: easy_from_def what_acquisition_error easy_dtor_def curl_easy_cleanup_def)

theorem easy_from_null_or_owner_witness:
  "(7::nat) \<noteq> nullptr
   \<and> easy_from (env_example 0) 7 = Inr \<lparr>handle = 7\<rparr>
   \<and> easy_dtor \<lparr>handle = 7\<rparr> [] = [Curl_easy_cleanup 7]
   \<and> easy_from (env_example 0) nullptr
       = Inl (ERROR (env_example 0) ''Failed to aquire CURL easy handle'' 61)
   \<and> cstr (what (ERROR (env_example 0) ''Failed to aquire CURL easy handle'' 61))
       = ''File: src/curl++.cpp - Line: 61\<newline>Failed to aquire CURL easy handle''"
  using easy_from_null_or_owner [of "env_example 0" 7 "[]"]
  by (simp add: nullptr_def env_example_def cstr_def NUL_def)

section \<open>Duplication\<close>

text \<open>
  C10: \<^verbatim>\<open>duplicate()\<close> makes one call of \<^verbatim>\<open>curl_easy_duphandle\<close> on its own
  handle. When that call returns the null handle, \<^verbatim>\<open>duplicate()\<close> throws the
  acquisition error; otherwise it returns a wrapper of exactly the handle the call
  returned. So a wrapper it returns never holds the null handle.
\<close>

theorem duplicate_null_or_owner:
  "snd (duplicate env e tr) = tr @ [Curl_easy_duphandle (handle e)]
   \<and> (ret_easy_duphandle env tr (handle e) = nullptr \<longrightarrow>
        fst (duplicate env e tr) = Inl (ERROR env ''Failed to aquire CURL easy handle'' 61))
   \<and> (ret_easy_duphandle env tr (handle e) \<noteq> nullptr \<longrightarrow>
        fst (duplicate env e tr) = Inr \<lparr>handle = ret_easy_duphandle env tr (handle e)\<rparr>)
   \<and> (\<forall>d. fst (duplicate env e tr) = Inr d \<longrightarrow>
        handle d \<noteq> nullptr \<and> handle d = ret_easy_duphandle env tr (handle e))"
  by (auto simp: duplicate_def curl_easy_duphandle_def easy_from_def split: if_splits)

theorem duplicate_null_or_owner_witness:
  "ret_easy_duphandle (env_example 0) [] (handle \<lparr>handle = 1\<rparr>) = nullptr
   \<and> fst (duplicate (env_example 0) \<lparr>handle = 1\<rparr> [])
       = Inl (ERROR (env_example 0) ''Failed to aquire CURL easy handle'' 61)
   \<and> ret_easy_duphandle (env_example 0) [Curl_easy_init] (handle \<lparr>handle = 2\<rparr>) \<noteq> nullptr
   \<and> fst (duplicate (env_example 0) \<lparr>handle = 2\<rparr> [Curl_easy_init]) = Inr \<lparr>handle = 2\<rparr>
   \<and> snd (duplicate (env_example 0) \<lparr>handle = 2\<rparr> [Curl_easy_init])
       = [Curl_easy_init, Curl_easy_duphandle 2]"
  using duplicate_null_or_owner [of "env_example 0" "\<lparr>handle = 1\<rparr>" "[]"]
    duplicate_null_or_owner [of "env_example 0" "\<lparr>handle = 2\<rparr>" "[Curl_easy_init]"]
  by (simp add: env_example_def nullptr_def)

section \<open>The messages of \<^verbatim>\<open>error\<close>\<close>

text \<open>
  C9: each of the three constructors of \<^verbatim>\<open>error\<close> should leave in the buffer the
  whole formatted message of its form, null-terminated and read through
  \<^verbatim>\<open>what()\<close>. The constructor from a plain message does. The two that format with
  \<^verbatim>\<open>snprintf\<close> leave the message without its last character, the final newline of
  the format: here for the message \<^verbatim>\<open>"msg"\<close> at line 61, and with the error text
  \<^verbatim>\<open>"Failed"\<close> at line 71.
\<close>

theorem error_message_loses_last_character:
  "fmt_location ''curl++.cpp'' 61 ''msg'' = ''File: curl++.cpp - Line: 61\<newline>msg\<newline>''
   \<and> cstr (what (error_location ''msg'' ''curl++.cpp'' 61)) = ''File: curl++.cpp - Line: 61\<newline>msg''
   \<and> fmt_code ''curl++.cpp'' 71 ''msg'' ''Failed''
       = ''File: curl++.cpp - Line: 71\<newline>msg\<newline>----------\<newline>Failed\<newline>''
   \<and> cstr (what (error_code (\<lambda>c. ''Failed'') ''msg'' 1 ''curl++.cpp'' 71))
       = ''File: curl++.cpp - Line: 71\<newline>msg\<newline>----------\<newline>Failed''
   \<and> cstr (what (error_msg ''msg'')) = ''msg''
   \<and> null_terminated (what (error_location ''msg'' ''curl++.cpp'' 61))
   \<and> null_terminated (what (error_code (\<lambda>c. ''Failed'') ''msg'' 1 ''curl++.cpp'' 71))
   \<and> null_terminated (what (error_msg ''msg''))"
  by (simp add: what_def error_location_def error_code_def error_msg_def fmt_location_def
      fmt_code_def snprintf_ret_def snprintf_buf_def strdup_def cstr_def NUL_def show_int_def
      show_nat.simps digit_def null_terminated_def)

section \<open>Moving an \<^verbatim>\<open>easy\<close>\<close>

text \<open>
  C1: after a move, destroying the source should release no native handle. The defaulted
  move operations copy the pointer and leave it in the source, and the destructor calls
  \<^verbatim>\<open>curl_easy_cleanup\<close> on whatever it holds. Here the wrapper of handle 1 is moved
  from; destroying the source calls \<^verbatim>\<open>curl_easy_cleanup\<close> on handle 1, after which no
  handle is in use, and destroying the target calls it on handle 1 again. Move assignment
  leaves both objects with the handle of the source as well.
\<close>

theorem easy_move_double_cleanup:
  "easy_move \<lparr>handle = 1\<rparr> = (\<lparr>handle = 1\<rparr>, \<lparr>handle = 1\<rparr>)
   \<and> easy_dtor (snd (easy_move \<lparr>handle = 1\<rparr>)) [Curl_easy_init] = [Curl_easy_init, Curl_easy_cleanup 1]
   \<and> live (env_example 0) [Curl_easy_init] = [1]
   \<and> live (env_example 0) [Curl_easy_init, Curl_easy_cleanup 1] = []
   \<and> easy_dtor (fst (easy_move \<lparr>handle = 1\<rparr>))
        (easy_dtor (snd (easy_move \<lparr>handle = 1\<rparr>)) [Curl_easy_init])
       = [Curl_easy_init, Curl_easy_cleanup 1, Curl_easy_cleanup 1]
   \<and> easy_move_assign \<lparr>handle = 2\<rparr> \<lparr>handle = 1\<rparr> = (\<lparr>handle = 1\<rparr>, \<lparr>handle = 1\<rparr>)"
  by (simp add: easy_move_def easy_move_assign_def easy_dtor_def curl_easy_cleanup_def live_def
      env_example_def acquired_def nullptr_def)

section \<open>Cookies from a map\<close>

lemma cookie_line_literal:
  "cookie_line name val = ''Set-Cookie: '' @ name @ ''='' @ val @ '';''"
  by (simp add: cookie_line_def)

lemma add_cookie_steps:
  "foldl (add_cookie_step env e) tr cs
     = tr @ map (\<lambda>c. Curl_easy_setopt (handle e) CURLOPT_COOKIELIST
                       (String (cstr (cookie_line (fst c) (snd c))))) cs"
  by (induction cs arbitrary: tr)
     (simp_all add: add_cookie_step_def curl_easy_setopt_def cstr_c_str)

lemma length_sorted_list_of_fmap: "length (sorted_list_of_fmap m) = fcard (fmdom m)"
  unfolding sorted_list_of_fmap_def by (simp add: fcard.rep_eq sorted_list_of_fset.rep_eq)

lemma distinct_sorted_list_of_fmap: "distinct (map fst (sorted_list_of_fmap m))"
  unfolding sorted_list_of_fmap_def by (simp add: comp_def sorted_list_of_fset.rep_eq)

lemma sorted_list_of_fmap_single: "sorted_list_of_fmap (fmupd k v fmempty) = [(k, v)]"
  unfolding sorted_list_of_fmap_def by (simp add: sorted_list_of_fset.rep_eq)

lemma cookie_line_cstr:
  "NUL \<notin> set name \<Longrightarrow> NUL \<notin> set val \<Longrightarrow> cstr (cookie_line name val) = cookie_line name val"
  by (rule cstr_id) (simp add: cookie_line_def NUL_def)


text \<open>
  C2: the map overload of \<^verbatim>\<open>add_cookie\<close> builds for every pair of the map the string
  "Set-Cookie: name=value;" and makes one call of \<^verbatim>\<open>curl_easy_setopt\<close> with option
  \<^verbatim>\<open>CURLOPT_COOKIELIST\<close> per pair, in the order of the keys, passing
  \<^verbatim>\<open>c_str()\<close> of that string; the library reads there the string itself when name and
  value hold no NUL byte. For the map \<^verbatim>\<open>{"a":"1"}\<close> it makes exactly one call, with
  the string "Set-Cookie: a=1;".
\<close>

theorem add_cookie_map_calls:
  "cookie_line name val = ''Set-Cookie: '' @ name @ ''='' @ val @ '';''
   \<and> snd (add_cookie_map env e cookiemap tr)
       = tr @ map (\<lambda>c. Curl_easy_setopt (handle e) CURLOPT_COOKIELIST
                         (String (cstr (cookie_line (fst c) (snd c)))))
                (sorted_list_of_fmap cookiemap)
   \<and> map_of (sorted_list_of_fmap cookiemap) = fmlookup cookiemap
   \<and> distinct (map fst (sorted_list_of_fmap cookiemap))
   \<and> fcard (fmdom cookiemap) = length (sorted_list_of_fmap cookiemap)
   \<and> (NUL \<notin> set name \<and> NUL \<notin> set val \<longrightarrow> cstr (cookie_line name val) = cookie_line name val)
   \<and> snd (add_cookie_map env e (fmupd ''a'' ''1'' fmempty) tr)
       = tr @ [Curl_easy_setopt (handle e) CURLOPT_COOKIELIST (String ''Set-Cookie: a=1;'')]"
proof -
  have calls: "snd (add_cookie_map env e m tr)
       = tr @ map (\<lambda>c. Curl_easy_setopt (handle e) CURLOPT_COOKIELIST
                         (String (cstr (cookie_line (fst c) (snd c)))))
                (sorted_list_of_fmap m)" for m
    by (simp add: add_cookie_map_def add_cookie_steps)
  have "cstr (cookie_line ''a'' ''1'') = ''Set-Cookie: a=1;''"
    by (simp add: cookie_line_def cstr_def NUL_def)
  then have "snd (add_cookie_map env e (fmupd ''a'' ''1'' fmempty) tr)
       = tr @ [Curl_easy_setopt (handle e) CURLOPT_COOKIELIST (String ''Set-Cookie: a=1;'')]"
    by (simp add: calls sorted_list_of_fmap_single)
  note scenario = this
  have count: "fcard (fmdom cookiemap) = length (sorted_list_of_fmap cookiemap)"
    by (simp add: length_sorted_list_of_fmap)
  have clean: "NUL \<notin> set name \<and> NUL \<notin> set val
      \<longrightarrow> cstr (cookie_line name val) = cookie_line name val"
    by (simp add: cookie_line_cstr)
  show ?thesis
    by (intro conjI)
       (rule cookie_line_literal calls map_of_sorted_list distinct_sorted_list_of_fmap
          count clean scenario)+
qed

theorem add_cookie_map_calls_witness:
  "NUL \<notin> set ''a'' \<and> NUL \<notin> set ''1''
   \<and> cstr (cookie_line ''a'' ''1'') = ''Set-Cookie: a=1;''
   \<and> sorted_list_of_fmap (fmupd ''a'' ''1'' fmempty) = [(''a'', ''1'')]
   \<and> snd (add_cookie_map (env_example 0) \<lparr>handle = 1\<rparr> (fmupd ''a'' ''1'' fmempty) [Curl_easy_init])
       = [Curl_easy_init, Curl_easy_setopt 1 CURLOPT_COOKIELIST (String ''Set-Cookie: a=1;'')]"
  using add_cookie_map_calls [of "''a''" "''1''" "env_example 0" "\<lparr>handle = 1\<rparr>"
      "fmupd ''a'' ''1'' fmempty" "[Curl_easy_init]"]
  by (simp add: NUL_def cstr_def sorted_list_of_fmap_single)

section \<open>Checked native calls\<close>

lemma error_code_mentions: "mentions (error_code strerror x code file line) file line"
  by (simp add: mentions_def what_error_code butlast_fmt_code)

lemma CHECK_silent_or_raises: "silent_or_raises code (CHECK env x file line code) file line"
  by (simp add: silent_or_raises_def CHECK_def error_code_mentions)

lemma show_int_lines:
  "show_int 71 = ''71''" "show_int 76 = ''76''" "show_int 81 = ''81''" "show_int 86 = ''86''"
  "show_int 129 = ''129''" "show_int 198 = ''198''" "show_int 203 = ''203''"
  by (simp_all add: show_int_def show_nat.simps digit_def)


text \<open>
  C3: the map overload of \<^verbatim>\<open>add_cookie\<close> never throws, whatever the native calls
  return. Each of the two overloads for a single cookie throws the \<^verbatim>\<open>error\<close> built
  from the returned code exactly when its native call returns a code other than
  \<^verbatim>\<open>CURLE_OK\<close>.
\<close>

theorem add_cookie_map_never_raises:
  "fst (add_cookie_map env e cookiemap tr) = Inr ()
   \<and> fst (add_cookie env e cookie tr)
       = (if ret_easy_setopt env tr (handle e) CURLOPT_COOKIELIST (String (cstr cookie)) = CURLE_OK
          then Inr ()
          else Inl (error_code (ret_easy_strerror env)
                      ''curl_easy_setopt(handle_, CURLOPT_COOKIELIST, cookie)''
                      (ret_easy_setopt env tr (handle e) CURLOPT_COOKIELIST (String (cstr cookie)))
                      (FILE_cpp env) 81))
   \<and> fst (add_cookie_string env e cookie tr)
       = (if ret_easy_setopt env tr (handle e) CURLOPT_COOKIELIST (String (cstr cookie)) = CURLE_OK
          then Inr ()
          else Inl (error_code (ret_easy_strerror env)
                      ''curl_easy_setopt(handle_, CURLOPT_COOKIELIST, cookie.c_str())''
                      (ret_easy_setopt env tr (handle e) CURLOPT_COOKIELIST (String (cstr cookie)))
                      (FILE_cpp env) 86))"
  by (simp add: add_cookie_map_def add_cookie_def add_cookie_string_def curl_easy_setopt_def
      CHECK_def cstr_c_str)

theorem add_cookie_map_never_raises_witness:
  "ret_easy_setopt (env_example 7) [] (handle \<lparr>handle = 1\<rparr>) CURLOPT_COOKIELIST (String (cstr ''x'')) \<noteq> CURLE_OK
   \<and> fst (add_cookie_map (env_example 7) \<lparr>handle = 1\<rparr> (fmupd ''a'' ''1'' fmempty) []) = Inr ()
   \<and> snd (add_cookie_map (env_example 7) \<lparr>handle = 1\<rparr> (fmupd ''a'' ''1'' fmempty) [])
       = [Curl_easy_setopt 1 CURLOPT_COOKIELIST (String ''Set-Cookie: a=1;'')]
   \<and> fst (add_cookie (env_example 7) \<lparr>handle = 1\<rparr> ''x'' [])
       = Inl (error_code (ret_easy_strerror (env_example 7))
                ''curl_easy_setopt(handle_, CURLOPT_COOKIELIST, cookie)'' 7 ''src/curl++.cpp'' 81)
   \<and> fst (add_cookie_string (env_example 7) \<lparr>handle = 1\<rparr> ''x'' [])
       = Inl (error_code (ret_easy_strerror (env_example 7))
                ''curl_easy_setopt(handle_, CURLOPT_COOKIELIST, cookie.c_str())'' 7 ''src/curl++.cpp'' 86)
   \<and> fst (add_cookie (env_example 0) \<lparr>handle = 1\<rparr> ''x'' []) = Inr ()"
  using add_cookie_map_never_raises [of "env_example 7" "\<lparr>handle = 1\<rparr>" "fmupd ''a'' ''1'' fmempty" "[]" "''x''"]
    add_cookie_map_never_raises [of "env_example 0" "\<lparr>handle = 1\<rparr>" "fmupd ''a'' ''1'' fmempty" "[]" "''x''"]
  by (simp add: env_example_def CURLE_OK_def add_cookie_map_def sorted_list_of_fmap_def
      sorted_list_of_fset.rep_eq add_cookie_step_def curl_easy_setopt_def cookie_line_def
      cstr_def c_str_def NUL_def)


text \<open>
  C5: each of the four overloads of \<^verbatim>\<open>set\<close> makes one call of
  \<^verbatim>\<open>curl_easy_setopt\<close> with its handle, option and value, and does nothing else.
  When that call returns \<^verbatim>\<open>CURLE_OK\<close> it returns normally; otherwise, and only then,
  it throws an \<^verbatim>\<open>error\<close> whose message starts with the file and the line of the
  call.
\<close>

theorem set_silent_or_raises:
  "snd (set_long env e option i tr) = tr @ [Curl_easy_setopt (handle e) option (Long i)]
   \<and> silent_or_raises (ret_easy_setopt env tr (handle e) option (Long i))
        (fst (set_long env e option i tr)) (FILE_cpp env) 71
   \<and> snd (set_string env e option s tr) = tr @ [Curl_easy_setopt (handle e) option (String (cstr s))]
   \<and> silent_or_raises (ret_easy_setopt env tr (handle e) option (String (cstr s)))
        (fst (set_string env e option s tr)) (FILE_cpp env) 76
   \<and> snd (set_pointer env e option p tr) = tr @ [Curl_easy_setopt (handle e) option (Pointer p)]
   \<and> silent_or_raises (ret_easy_setopt env tr (handle e) option (Pointer p))
        (fst (set_pointer env e option p tr)) (FILE_h env) 198
   \<and> snd (set_function env e option f tr) = tr @ [Curl_easy_setopt (handle e) option (Function f)]
   \<and> silent_or_raises (ret_easy_setopt env tr (handle e) option (Function f))
        (fst (set_function env e option f tr)) (FILE_h env) 203"
  by (simp add: set_long_def set_string_def set_pointer_def set_function_def curl_easy_setopt_def
      CHECK_silent_or_raises cstr_c_str)

theorem set_silent_or_raises_witness:
  "fst (set_long (env_example 0) \<lparr>handle = 1\<rparr> (CURLOPT_other 64) 1 []) = Inr ()
   \<and> snd (set_long (env_example 0) \<lparr>handle = 1\<rparr> (CURLOPT_other 64) 1 [])
       = [Curl_easy_setopt 1 (CURLOPT_other 64) (Long 1)]
   \<and> ret_easy_setopt (env_example 7) [] 1 (CURLOPT_other 64) (Long 1) \<noteq> CURLE_OK
   \<and> silent_or_raises 7 (fst (set_long (env_example 7) \<lparr>handle = 1\<rparr> (CURLOPT_other 64) 1 []))
        ''src/curl++.cpp'' 71
   \<and> cstr (what (projl (fst (set_long (env_example 7) \<lparr>handle = 1\<rparr> (CURLOPT_other 64) 1 []))))
       = ''File: src/curl++.cpp - Line: 71\<newline>curl_easy_setopt(handle_, option, value)\<newline>----------\<newline>Failed''"
  using set_silent_or_raises [of "env_example 0" "\<lparr>handle = 1\<rparr>" "CURLOPT_other 64" 1 "[]"]
    set_silent_or_raises [of "env_example 7" "\<lparr>handle = 1\<rparr>" "CURLOPT_other 64" 1 "[]"]
  by (simp add: env_example_def CURLE_OK_def silent_or_raises_def set_long_def
      curl_easy_setopt_def CHECK_def what_error_code butlast_fmt_code show_int_lines cstr_id
      NUL_def)

section \<open>Receiving into a string\<close>

lemma writefunc_string_accepts:
  "recv_into_writefunc_string c buffer = (size_c c * nmemb c, buffer @ delivered c)"
  by (simp add: recv_into_writefunc_string_def delivered_def)

lemma deliver_string:
  "deliver recv_into_writefunc_string cs buffer = (True, buffer @ concat (map delivered cs))"
  by (induction cs arbitrary: buffer) (simp_all add: writefunc_string_accepts)

lemma perform_string:
  "perform env e recv_into_writefunc_string buffer tr
     = (CHECK env ''curl_easy_perform(handle_)'' (FILE_cpp env) 129 (ret_easy_perform env tr (handle e)),
        buffer @ concat (map delivered (data_easy_perform env tr (handle e))),
        tr @ [Curl_easy_perform (handle e)])"
  by (simp add: perform_def curl_easy_perform_def deliver_string)

lemma recv_into_string_buffer:
  assumes "recv_into_string env e addr buffer tr = (Inr u, buffer', tr')"
  shows "buffer' = buffer @ concat (map delivered (offered env e addr tr))"
  using assms
  by (auto simp: recv_into_string_def set_pointer_def set_function_def curl_easy_setopt_def
      perform_string offered_def split: sum.splits prod.splits)

lemma delivered_chunk_of: "length s < 2 ^ 64 \<Longrightarrow> delivered (chunk_of s) = s"
  by (simp add: delivered_def chunk_of_def bytes_at_def unat_of_nat map_nth)


lemma example_transfer:
  "recv_into_string (env_example 0) \<lparr>handle = 5\<rparr> 4096 buffer []
     = (Inr (), buffer @ ''abc'',
        [Curl_easy_setopt 5 CURLOPT_WRITEDATA (Pointer 4096),
         Curl_easy_setopt 5 CURLOPT_WRITEFUNCTION (Function Recv_into_writefunc_string),
         Curl_easy_perform 5])"
  by (simp add: recv_into_string_def set_pointer_def set_function_def curl_easy_setopt_def
      perform_string CHECK_def env_example_def CURLE_OK_def delivered_chunk_of)

lemma example_offered:
  "concat (map delivered (offered (env_example 0) \<lparr>handle = 5\<rparr> 4096 [])) = ''abc''"
  by (simp add: offered_def env_example_def delivered_chunk_of)


text \<open>
  C6: when \<^verbatim>\<open>recv_into(std::string&)\<close> returns normally, the buffer holds what it
  held before the call, followed by the chunks the library offered to the write callback,
  one after the other in the order of arrival. \<^verbatim>\<open>get()\<close> starts from an empty buffer
  and returns exactly those chunks. The callback appends each chunk and returns
  \<^verbatim>\<open>size * nmemb\<close>, so that every chunk counts as accepted.
\<close>

theorem recv_into_string_appends:
  "(recv_into_string env e addr buffer tr = (Inr u, buffer', tr')
      \<longrightarrow> buffer' = buffer @ concat (map delivered (offered env e addr tr)))
   \<and> (get env e addr tr = (Inr body, tr')
      \<longrightarrow> body = concat (map delivered (offered env e addr tr)))
   \<and> fst (recv_into_writefunc_string c buffer) = size_c c * nmemb c
   \<and> snd (recv_into_writefunc_string c buffer) = buffer @ delivered c"
proof -
  have "body = concat (map delivered (offered env e addr tr))"
    if "get env e addr tr = (Inr body, tr')"
  proof -
    from that have "recv_into_string env e addr [] tr = (Inr (), body, tr')"
      by (auto simp: get_def split: prod.splits sum.splits)
    then show ?thesis using recv_into_string_buffer by fastforce
  qed
  then show ?thesis
    using recv_into_string_buffer [of env e addr buffer tr u buffer' tr']
    by (simp add: writefunc_string_accepts)
qed


theorem recv_into_string_appends_witness:
  "recv_into_string (env_example 0) \<lparr>handle = 5\<rparr> 4096 ''x'' []
     = (Inr (), ''xabc'',
        [Curl_easy_setopt 5 CURLOPT_WRITEDATA (Pointer 4096),
         Curl_easy_setopt 5 CURLOPT_WRITEFUNCTION (Function Recv_into_writefunc_string),
         Curl_easy_perform 5])
   \<and> ''xabc'' = ''x'' @ concat (map delivered (offered (env_example 0) \<lparr>handle = 5\<rparr> 4096 []))
   \<and> get (env_example 0) \<lparr>handle = 5\<rparr> 4096 []
     = (Inr ''abc'',
        [Curl_easy_setopt 5 CURLOPT_WRITEDATA (Pointer 4096),
         Curl_easy_setopt 5 CURLOPT_WRITEFUNCTION (Function Recv_into_writefunc_string),
         Curl_easy_perform 5])
   \<and> ''abc'' = concat (map delivered (offered (env_example 0) \<lparr>handle = 5\<rparr> 4096 []))"
  using recv_into_string_appends [of "env_example 0" "\<lparr>handle = 5\<rparr>" 4096 "''x''" "[]" "()" "''xabc''"
      "[Curl_easy_setopt 5 CURLOPT_WRITEDATA (Pointer 4096),
         Curl_easy_setopt 5 CURLOPT_WRITEFUNCTION (Function Recv_into_writefunc_string),
         Curl_easy_perform 5]" "''abc''"]
  by (simp add: example_transfer example_offered get_def)


text \<open>
  A buffer that is not empty at the call keeps its content: after a transfer of "ab" and
  "c" into a buffer that holds "x", the buffer is not the concatenation of the chunks.
\<close>

theorem recv_into_string_counterexample:
  "fst (recv_into_string (env_example 0) \<lparr>handle = 5\<rparr> 4096 ''x'' []) = Inr ()
   \<and> fst (snd (recv_into_string (env_example 0) \<lparr>handle = 5\<rparr> 4096 ''x'' []))
       \<noteq> concat (map delivered (offered (env_example 0) \<lparr>handle = 5\<rparr> 4096 []))"
  by (simp add: example_transfer example_offered)

section \<open>Appending to a list\<close>

lemma list_append_result:
  "list_append env v l tr
     = (l\<lparr>list_p := fst (curl_slist_append env (list_p l) v tr)\<rparr>,
        tr @ [Curl_slist_append (list_p l) (cstr v)])"
  by (simp add: list_append_def curl_slist_append_def)

lemma list_append_string_result:
  "list_append_string env v l tr
     = (l\<lparr>list_p := fst (curl_slist_append env (list_p l) (c_str v) tr)\<rparr>,
        tr @ [Curl_slist_append (list_p l) (cstr v)])"
  by (simp add: list_append_string_def list_append_result cstr_c_str)

lemma list_append_ok:
  "ok_slist_append env tr \<Longrightarrow> deref (fst (list_append env v l tr)) = deref l @ [cstr v]"
  by (simp add: list_append_result curl_slist_append_def deref_def)

lemma list_append_string_ok:
  "ok_slist_append env tr \<Longrightarrow> deref (fst (list_append_string env v l tr)) = deref l @ [cstr v]"
  by (simp add: list_append_string_def list_append_ok cstr_c_str)

lemma append_call_ok:
  "ok_slist_append env tr \<Longrightarrow> deref (fst (append_call env a l tr)) = deref l @ [entry a]"
  by (cases a) (simp_all add: list_append_ok list_append_string_ok)

lemma append_call_trace:
  "snd (append_call env a l tr) = tr @ [Curl_slist_append (list_p l) (entry a)]"
  by (cases a) (simp_all add: list_append_result list_append_string_result)

lemma appends_all:
  "appends_succeed env args l tr \<Longrightarrow> deref (fst (appends env args l tr)) = deref l @ map entry args"
proof (induction args arbitrary: l tr)
  case Nil
  then show ?case by simp
next
  case (Cons a args)
  obtain l' tr' where step: "append_call env a l tr = (l', tr')"
    by (cases "append_call env a l tr")
  from Cons.prems step have ok: "ok_slist_append env tr" and rest: "appends_succeed env args l' tr'"
    by simp_all
  from ok step have "deref l' = deref l @ [entry a]"
    using append_call_ok [of env tr a l] by simp
  with Cons.IH [OF rest] step show ?case by simp
qed

text \<open>
  C7: both overloads of \<^verbatim>\<open>append\<close> store whatever \<^verbatim>\<open>curl_slist_append\<close>
  returns in place of the reference the list held. When the native call succeeds, the list
  afterwards is the list before with the new entry at its end; and after a sequence of
  calls of \<^verbatim>\<open>append\<close>, through either overload, whose native calls all succeed,
  dereferencing gives the entries the list had, followed by all appended entries in the
  order of the calls.
\<close>

theorem list_append_reflects_entries:
  "list_p (fst (list_append env v l tr)) = fst (curl_slist_append env (list_p l) v tr)
   \<and> list_p (fst (list_append_string env s l tr))
       = fst (curl_slist_append env (list_p l) (c_str s) tr)
   \<and> (ok_slist_append env tr \<longrightarrow>
        deref (fst (list_append env v l tr)) = deref l @ [cstr v]
        \<and> deref (fst (list_append_string env s l tr)) = deref l @ [cstr s])
   \<and> (appends_succeed env args l tr \<longrightarrow>
        deref (fst (appends env args l tr)) = deref l @ map entry args)"
proof (intro conjI impI)
  show "list_p (fst (list_append env v l tr)) = fst (curl_slist_append env (list_p l) v tr)"
    by (simp add: list_append_result)
next
  show "list_p (fst (list_append_string env s l tr))
       = fst (curl_slist_append env (list_p l) (c_str s) tr)"
    by (simp add: list_append_string_result)
next
  assume "ok_slist_append env tr"
  then show "deref (fst (list_append env v l tr)) = deref l @ [cstr v]"
    by (rule list_append_ok)
next
  assume "ok_slist_append env tr"
  then show "deref (fst (list_append_string env s l tr)) = deref l @ [cstr s]"
    by (rule list_append_string_ok)
next
  assume "appends_succeed env args l tr"
  then show "deref (fst (appends env args l tr)) = deref l @ map entry args"
    by (rule appends_all)
qed

lemma example_appends:
  "appends_succeed (env_slist 3) [Append_cstr ''a'', Append_string ''b'', Append_cstr ''c'']
     (list_from [''x'']) []"
  "appends (env_slist 3) [Append_cstr ''a'', Append_string ''b'', Append_cstr ''c'']
     (list_from [''x'']) []
     = (\<lparr>list_p = [''x'', ''a'', ''b'', ''c'']\<rparr>,
        [Curl_slist_append [''x''] ''a'', Curl_slist_append [''x'', ''a''] ''b'',
         Curl_slist_append [''x'', ''a'', ''b''] ''c''])"
  by (simp_all add: env_slist_def list_from_def list_append_result list_append_string_result
      curl_slist_append_def cstr_def c_str_def NUL_def)

theorem list_append_reflects_entries_witness:
  "ok_slist_append (env_slist 3) []
   \<and> deref (fst (list_append (env_slist 3) ''a'' (list_from [''x'']) [])) = [''x'', ''a'']
   \<and> deref (fst (list_append_string (env_slist 3) ''b'' (list_from [''x'']) [])) = [''x'', ''b'']
   \<and> appends_succeed (env_slist 3) [Append_cstr ''a'', Append_string ''b'', Append_cstr ''c'']
        (list_from [''x'']) []
   \<and> deref (fst (appends (env_slist 3) [Append_cstr ''a'', Append_string ''b'', Append_cstr ''c'']
        (list_from [''x'']) [])) = [''x'', ''a'', ''b'', ''c'']"
proof -
  have ok: "ok_slist_append (env_slist 3) []"
    by (simp add: env_slist_def)
  have lits: "cstr ''a'' = ''a''" "cstr ''b'' = ''b''" "cstr ''c'' = ''c''"
    by (simp_all add: cstr_def NUL_def)
  note inst = list_append_reflects_entries [of "env_slist 3" "''a''" "list_from [''x'']" "[]" "''b''"
      "[Append_cstr ''a'', Append_string ''b'', Append_cstr ''c'']"]
  from inst ok have one:
    "deref (fst (list_append (env_slist 3) ''a'' (list_from [''x'']) [])) = deref (list_from [''x'']) @ [cstr ''a'']"
    "deref (fst (list_append_string (env_slist 3) ''b'' (list_from [''x'']) [])) = deref (list_from [''x'']) @ [cstr ''b'']"
    by blast+
  from inst example_appends(1) have many:
    "deref (fst (appends (env_slist 3) [Append_cstr ''a'', Append_string ''b'', Append_cstr ''c'']
        (list_from [''x'']) []))
       = deref (list_from [''x'']) @ map entry [Append_cstr ''a'', Append_string ''b'', Append_cstr ''c'']"
    by blast
  show ?thesis
    using ok one many example_appends(1) by (simp add: lits deref_def list_from_def)
qed

text \<open>
  When a native call fails the wrapper stores the null pointer it returned: with a library
  whose second \<^verbatim>\<open>curl_slist_append\<close> fails, appending "a" and "b" to an empty list
  does not leave the two entries in it.
\<close>

theorem list_append_counterexample:
  "deref (fst (appends (env_example 0) [Append_cstr ''a'', Append_cstr ''b''] list_init []))
     \<noteq> deref list_init @ map entry [Append_cstr ''a'', Append_cstr ''b'']"
  by (simp add: list_append_result curl_slist_append_def env_example_def list_init_def deref_def)

section \<open>Comparing handles\<close>

lemma live_from_append:
  "live_from env past (xs @ ys) hs = live_from env (past @ xs) ys (live_from env past xs hs)"
  by (induction xs arbitrary: past hs) simp_all

lemma live_from_keeps:
  "h \<in> set hs \<Longrightarrow> Curl_easy_cleanup h \<notin> set cs \<Longrightarrow> h \<in> set (live_from env past cs hs)"
proof (induction cs arbitrary: past hs)
  case Nil
  then show ?case by simp
next
  case (Cons c cs)
  have "h \<in> set (case c of
          Curl_easy_init \<Rightarrow> acquired (ret_easy_init env past) hs
        | Curl_easy_duphandle h' \<Rightarrow> acquired (ret_easy_duphandle env past h') hs
        | Curl_easy_cleanup h' \<Rightarrow> removeAll h' hs
        | _ \<Rightarrow> hs)"
    using Cons.prems by (cases c) (auto simp: acquired_def)
  then show ?case using Cons.IH Cons.prems by simp
qed

lemma easy_init_live:
  assumes "easy_init env tr = (Inr a, tr1)"
  shows "tr1 = tr @ [Curl_easy_init]" and "handle a = ret_easy_init env tr"
    and "handle a \<in> set (live env tr1)"
proof -
  from assms show 1: "tr1 = tr @ [Curl_easy_init]" and 2: "handle a = ret_easy_init env tr"
    by (auto simp: easy_init_def curl_easy_init_def split: if_splits)
  from assms have "ret_easy_init env tr \<noteq> nullptr"
    by (auto simp: easy_init_def curl_easy_init_def split: if_splits)
  then show "handle a \<in> set (live env tr1)"
    by (simp add: 1 2 live_def live_from_append acquired_def)
qed


text \<open>
  C8: the six comparison operators of \<^verbatim>\<open>easy\<close> compare the two native handles and
  nothing else. So every object is equal to itself; and two objects built by two
  acquisitions are not equal, whatever was called on the library in between, as long as
  the first handle was not given back and the library hands out a handle that is not in
  use.
\<close>

theorem easy_compare_identity:
  assumes "easy_init env tr = (Inr a, tr1)"
    and "Curl_easy_cleanup (handle a) \<notin> set calls"
    and "ret_easy_init env (tr1 @ calls) \<notin> set (live env (tr1 @ calls))"
    and "easy_init env (tr1 @ calls) = (Inr b, tr2)"
  shows "op_eq a a \<and> op_eq b b \<and> \<not> op_eq a b \<and> \<not> op_eq b a \<and> op_ne a b
    \<and> op_eq x y = (handle x = handle y) \<and> op_ne x y = (handle x \<noteq> handle y)
    \<and> op_lt x y = (handle x < handle y) \<and> op_gt x y = (handle x > handle y)
    \<and> op_le x y = (handle x \<le> handle y) \<and> op_ge x y = (handle x \<ge> handle y)"
proof -
  have "handle a \<in> set (live env tr1)" using assms(1) by (rule easy_init_live)
  then have "handle a \<in> set (live env (tr1 @ calls))"
    using assms(2) by (simp add: live_def live_from_append live_from_keeps)
  moreover have "handle b = ret_easy_init env (tr1 @ calls)"
    using assms(4) by (rule easy_init_live)
  ultimately have "handle a \<noteq> handle b" using assms(3) by auto
  then show ?thesis
    by (auto simp: op_eq_def op_ne_def op_lt_def op_gt_def op_le_def op_ge_def)
qed

theorem easy_compare_identity_witness:
  "easy_init (env_example 0) [] = (Inr \<lparr>handle = 1\<rparr>, [Curl_easy_init])
   \<and> Curl_easy_cleanup (handle \<lparr>handle = 1\<rparr>) \<notin> set [Curl_easy_setopt 1 (CURLOPT_other 64) (Long 1)]
   \<and> ret_easy_init (env_example 0) ([Curl_easy_init] @ [Curl_easy_setopt 1 (CURLOPT_other 64) (Long 1)])
       \<notin> set (live (env_example 0) ([Curl_easy_init] @ [Curl_easy_setopt 1 (CURLOPT_other 64) (Long 1)]))
   \<and> easy_init (env_example 0) ([Curl_easy_init] @ [Curl_easy_setopt 1 (CURLOPT_other 64) (Long 1)])
       = (Inr \<lparr>handle = 3\<rparr>,
          [Curl_easy_init, Curl_easy_setopt 1 (CURLOPT_other 64) (Long 1), Curl_easy_init])
   \<and> op_eq \<lparr>handle = 1\<rparr> \<lparr>handle = 1\<rparr> \<and> \<not> op_eq \<lparr>handle = 1\<rparr> \<lparr>handle = 3\<rparr>
   \<and> op_lt \<lparr>handle = 1\<rparr> \<lparr>handle = 3\<rparr>"
proof -
  have 1: "easy_init (env_example 0) [] = (Inr \<lparr>handle = 1\<rparr>, [Curl_easy_init])"
    by (simp add: easy_init_def curl_easy_init_def env_example_def nullptr_def)
  have 2: "Curl_easy_cleanup (handle \<lparr>handle = 1\<rparr>) \<notin> set [Curl_easy_setopt 1 (CURLOPT_other 64) (Long 1)]"
    by simp
  have 3: "ret_easy_init (env_example 0) ([Curl_easy_init] @ [Curl_easy_setopt 1 (CURLOPT_other 64) (Long 1)])
       \<notin> set (live (env_example 0) ([Curl_easy_init] @ [Curl_easy_setopt 1 (CURLOPT_other 64) (Long 1)]))"
    by (simp add: live_def env_example_def acquired_def nullptr_def)
  have 4: "easy_init (env_example 0) ([Curl_easy_init] @ [Curl_easy_setopt 1 (CURLOPT_other 64) (Long 1)])
       = (Inr \<lparr>handle = 3\<rparr>,
          [Curl_easy_init, Curl_easy_setopt 1 (CURLOPT_other 64) (Long 1), Curl_easy_init])"
    by (simp add: easy_init_def curl_easy_init_def env_example_def nullptr_def)
  from easy_compare_identity [OF 1 2 3 4, of "\<lparr>handle = 1\<rparr>" "\<lparr>handle = 3\<rparr>"] 1 2 3 4
  show ?thesis by simp
qed

end
